theory Spec2Isabelle
  imports Main "HOL-Library.Sublist"
begin

section \<open>Strings and byte slices\<close>

text \<open>
  A Go \<open>string\<close> and a Go \<open>[]byte\<close> are both sequences of bytes; both are modelled
  as \<open>string\<close> (a list of 8-bit characters). The functions of this section are the
  ones of Go's \<open>strings\<close> and \<open>encoding/hex\<close> packages that the repository calls.
\<close>

type_synonym bytes = string

definition HasPrefix :: "string \<Rightarrow> string \<Rightarrow> bool" where
  "HasPrefix s p = (length p \<le> length s \<and> take (length p) s = p)"

definition HasSuffix :: "string \<Rightarrow> string \<Rightarrow> bool" where
  "HasSuffix s p = (length p \<le> length s \<and> drop (length s - length p) s = p)"

definition TrimPrefix :: "string \<Rightarrow> string \<Rightarrow> string" where
  "TrimPrefix s p = (if HasPrefix s p then drop (length p) s else s)"

definition TrimSuffix :: "string \<Rightarrow> string \<Rightarrow> string" where
  "TrimSuffix s p = (if HasSuffix s p then take (length s - length p) s else s)"

text \<open>\<open>strings.Replace(s, old, new, 1)\<close>: the first occurrence of \<open>old\<close> is replaced.\<close>

fun Replace1 :: "string \<Rightarrow> string \<Rightarrow> string \<Rightarrow> string" where
  "Replace1 [] old new = (if old = [] then new else [])"
| "Replace1 (c # cs) old new =
     (if HasPrefix (c # cs) old then new @ drop (length old) (c # cs)
      else c # Replace1 cs old new)"

fun Contains :: "string \<Rightarrow> string \<Rightarrow> bool" where
  "Contains [] sub = (sub = [])"
| "Contains (c # cs) sub = (HasPrefix (c # cs) sub \<or> Contains cs sub)"

definition isASCII :: "char \<Rightarrow> bool" where
  "isASCII c = ((of_char c :: nat) < 128)"

definition lowerByte :: "char \<Rightarrow> char" where
  "lowerByte c =
     (if 65 \<le> (of_char c :: nat) \<and> (of_char c :: nat) \<le> 90
      then char_of ((of_char c :: nat) + 32) else c)"

text \<open>
  \<open>strings.ToLower\<close>: a string of ASCII bytes only is lower-cased byte by byte; any
  other string goes through \<open>strings.Map(unicode.ToLower, s)\<close>, which belongs to the Go
  library and is the parameter \<open>mapLower\<close> here.
\<close>

definition ToLower :: "(string \<Rightarrow> string) \<Rightarrow> string \<Rightarrow> string" where
  "ToLower mapLower s =
     (if list_all isASCII s then map lowerByte s else mapLower s)"

definition hextable :: string where
  "hextable = ''0123456789abcdef''"

text \<open>\<open>hex.EncodeToString\<close>: two lower-case hexadecimal digits for each byte.\<close>

fun EncodeToString :: "bytes \<Rightarrow> string" where
  "EncodeToString [] = []"
| "EncodeToString (b # bs) =
     hextable ! ((of_char b :: nat) div 16) # hextable ! ((of_char b :: nat) mod 16)
       # EncodeToString bs"

section \<open>URL normalisation (package git, first manager)\<close>

definition normalizeGitURL :: "(string \<Rightarrow> string) \<Rightarrow> string \<Rightarrow> string" where
  "normalizeGitURL mapLower url =
     (let url1 = TrimSuffix url ''.git'';
          url2 = (if HasPrefix url1 ''git@''
                  then Replace1 (Replace1 url1 '':'' ''/'') ''git@'' ''https://''
                  else url1);
          url3 = (if \<not> HasPrefix url2 ''http://'' \<and> \<not> HasPrefix url2 ''https://''
                  then ''https://'' @ url2 else url2)
      in ToLower mapLower url3)"

definition CompareURLs :: "(string \<Rightarrow> string) \<Rightarrow> string \<Rightarrow> string \<Rightarrow> bool" where
  "CompareURLs mapLower url1 url2 =
     (normalizeGitURL mapLower url1 = normalizeGitURL mapLower url2)"

text \<open>
  The normaliser as the specification words it, step by step: the four steps are named
  and composed in \<open>normalize_spec\<close>, to be compared with \<open>normalizeGitURL\<close>.
\<close>

definition strip_git_suffix :: "string \<Rightarrow> string" where
  "strip_git_suffix u = (if HasSuffix u ''.git'' then take (length u - 4) u else u)"

definition ssh_to_https :: "string \<Rightarrow> string" where
  "ssh_to_https u =
     (if HasPrefix u ''git@''
      then (let rest = drop 4 u;
                host = takeWhile (\<lambda>c. c \<noteq> CHR '':'') rest
            in ''https://'' @ host @
                 (case dropWhile (\<lambda>c. c \<noteq> CHR '':'') rest of
                    [] \<Rightarrow> []
                  | _ # path \<Rightarrow> CHR ''/'' # path))
      else u)"

definition ensure_scheme :: "string \<Rightarrow> string" where
  "ensure_scheme u =
     (if HasPrefix u ''http://'' \<or> HasPrefix u ''https://'' then u else ''https://'' @ u)"

definition normalize_spec :: "(string \<Rightarrow> string) \<Rightarrow> string \<Rightarrow> string" where
  "normalize_spec mapLower u =
     ToLower mapLower (ensure_scheme (ssh_to_https (strip_git_suffix u)))"

section \<open>Signature verification (package webhook)\<close>

text \<open>
  \<open>hmac.Equal\<close> reports whether two byte slices are equal (in constant time for
  slices of one length).
\<close>

definition Equal :: "bytes \<Rightarrow> bytes \<Rightarrow> bool" where
  "Equal mac1 mac2 = (mac1 = mac2)"

text \<open>
  \<open>Handler.verifySignature\<close>. The keyed hash \<open>hmac.New(sha256.New, key)\<close> of Go's
  \<open>crypto\<close> packages is the parameter \<open>hmac_sha256\<close> (key first, message second); the
  secret is the field \<open>config.GitHub.WebhookSecret\<close> of the handler.
\<close>

definition verifySignature ::
  "(bytes \<Rightarrow> bytes \<Rightarrow> bytes) \<Rightarrow> string \<Rightarrow> bytes \<Rightarrow> string \<Rightarrow> bool" where
  "verifySignature hmac_sha256 secret payload signature =
     (if signature = [] then False
      else (let signature1 = TrimPrefix signature ''sha256='';
                expectedMAC = EncodeToString (hmac_sha256 secret payload)
            in Equal signature1 expectedMAC))"

section \<open>Branch of a ref\<close>

text \<open>\<open>extractBranchFromRef\<close> of package server.\<close>

definition extractBranchFromRef :: "string \<Rightarrow> string" where
  "extractBranchFromRef ref =
     (let prefix0 = ''refs/heads/''
      in if length ref > length prefix0 \<and> take (length prefix0) ref = prefix0
         then drop (length prefix0) ref
         else ref)"

section \<open>The outside world\<close>

text \<open>
  Everything the program does to its surroundings is an \<open>action\<close>, and a run of the
  program is the list of its actions in order (the trace). \<open>Git\<close> is a git process
  started by a git manager, \<open>Exec\<close> a post-pull command started by an executor (both
  with the working directory and the argument vector), \<open>Kill\<close> is \<open>cmd.Process.Kill()\<close>,
  and the three \<open>Send\<close> actions are the calls of the notification client.
\<close>

datatype action =
    Git string "string list"
  | Exec string "string list"
  | Kill string "string list"
  | SendFailureNotification string string string
  | SendConflictNotification string string string
  | SendCommandFailureNotification string string string string

text \<open>
  What a finished process leaves behind: the error of \<open>Run\<close> / \<open>CombinedOutput\<close>
  (\<open>None\<close> exactly when the process ran and exited with status 0, otherwise the text of
  the error), the two captured streams, and the single buffer \<open>CombinedOutput\<close> fills
  with both streams as they arrive.
\<close>

record proc_result =
  exit_error :: "string option"
  out_stdout :: string
  out_stderr :: string
  out_combined :: string

text \<open>
  The two cases of the \<open>select\<close> in the executor with a timeout: the timer fires first
  (with whether the process has been started by then, and the output it has written so
  far), or the process completes first.
\<close>

datatype select_case =
    TimerFirst bool string
  | DoneFirst proc_result

text \<open>
  The environment answers every question the program asks, as a function of the trace so
  far: the result of a process, the outcome of the race against the timer, whether a path
  is missing on disk. It also carries the parts of the Go library that are not modelled
  here: \<open>strings.Map(unicode.ToLower, s)\<close> and \<open>strings.FieldsFunc(s, unicode.IsSpace)\<close>
  for strings with bytes beyond ASCII, and \<open>time.Duration.String\<close>.
\<close>

record env =
  unicodeLower :: "string \<Rightarrow> string"
  unicodeFields :: "string \<Rightarrow> string list"
  durationString :: "int \<Rightarrow> string"
  run :: "action list \<Rightarrow> string \<Rightarrow> string list \<Rightarrow> proc_result"
  race :: "action list \<Rightarrow> string \<Rightarrow> string list \<Rightarrow> int \<Rightarrow> select_case"
  notExist :: "action list \<Rightarrow> string \<Rightarrow> bool"

section \<open>Errors\<close>

text \<open>
  A Go \<open>error\<close> value: one made by \<open>fmt.Errorf\<close> (with its message), the timeout error
  of the executor (the message is made from the duration), a \<open>*git.ConflictError\<close>, or
  a \<open>*executor.CommandError\<close> (command, stdout, stderr, underlying error).
\<close>

datatype error =
    Errorf string
  | TimedOut int
  | ConflictError string
  | CommandError string string string string

definition newline :: string where
  "newline = [CHR 0x0A]"

fun Error :: "env \<Rightarrow> error \<Rightarrow> string" where
  "Error w (Errorf msg) = msg"
| "Error w (TimedOut d) = ''command timed out after '' @ durationString w d"
| "Error w (ConflictError msg) = ''merge conflict: '' @ msg"
| "Error w (CommandError command out err e) =
     ''command failed: '' @ command @ newline @ ''error: '' @ e @ newline
     @ (if out \<noteq> [] then ''stdout:'' @ newline @ out @ newline else [])
     @ (if err \<noteq> [] then ''stderr:'' @ newline @ err @ newline else [])"

fun IsConflictError :: "error \<Rightarrow> bool" where
  "IsConflictError (ConflictError msg) = True"
| "IsConflictError e = False"

section \<open>Git managers\<close>

record Manager =
  repoPath :: string


text \<open>
  \<open>NewManager\<close> of the second git manager refuses a path without a \<open>.git\<close> entry
  (\<open>filepath.Join(repoPath, ".git")\<close> is written out for a path that needs no cleaning).
\<close>

definition NewManager :: "env \<Rightarrow> string \<Rightarrow> action list \<Rightarrow> error + Manager" where
  "NewManager w path tr =
     (if notExist w tr (path @ ''/.git'')
      then Inl (Errorf (''not a git repository: '' @ path))
      else Inr \<lparr>repoPath = path\<rparr>)"

text \<open>\<open>Manager.FetchAndPull\<close> of the second git manager.\<close>

definition FetchAndPull ::
  "env \<Rightarrow> Manager \<Rightarrow> string \<Rightarrow> action list \<Rightarrow> error option \<times> action list" where
  "FetchAndPull w m branch tr =
     (let fetch = run w tr (repoPath m) [''git'', ''fetch'', ''origin'', branch];
          tr1 = tr @ [Git (repoPath m) [''git'', ''fetch'', ''origin'', branch]]
      in case exit_error fetch of
           Some e \<Rightarrow> (Some (Errorf (''git fetch failed: '' @ out_stderr fetch)), tr1)
         | None \<Rightarrow>
             (let pull = run w tr1 (repoPath m) [''git'', ''pull'', ''origin'', branch];
                  tr2 = tr1 @ [Git (repoPath m) [''git'', ''pull'', ''origin'', branch]]
              in case exit_error pull of
                   Some e \<Rightarrow>
                     (if Contains (out_stderr pull) ''CONFLICT''
                         \<or> Contains (out_stdout pull) ''CONFLICT''
                      then (Some (ConflictError (out_stderr pull @ out_stdout pull)), tr2)
                      else (Some (Errorf (''git pull failed: '' @ out_stderr pull)), tr2))
                 | None \<Rightarrow> (None, tr2)))"

section \<open>Executors\<close>

text \<open>
  \<open>strings.Fields\<close>: a string of ASCII bytes only is split around runs of the six ASCII
  white-space bytes; any other string goes through the library.
\<close>

definition asciiSpace :: "char \<Rightarrow> bool" where
  "asciiSpace c = ((of_char c :: nat) \<in> {9, 10, 11, 12, 13, 32})"

fun fieldsFrom :: "string \<Rightarrow> string \<Rightarrow> string list" where
  "fieldsFrom cur [] = (if cur = [] then [] else [cur])"
| "fieldsFrom cur (c # cs) =
     (if asciiSpace c
      then (if cur = [] then fieldsFrom [] cs else cur # fieldsFrom [] cs)
      else fieldsFrom (cur @ [c]) cs)"

definition Fields :: "env \<Rightarrow> string \<Rightarrow> string list" where
  "Fields w s = (if list_all isASCII s then fieldsFrom [] s else unicodeFields w s)"

text \<open>The executor with a timeout; durations are nanoseconds, as \<open>time.Duration\<close>.\<close>

record Executor =
  workDir :: string
  timeout :: int

definition Minute :: int where
  "Minute = 60 * 1000000000"

definition NewExecutor :: "string \<Rightarrow> Executor" where
  "NewExecutor dir = \<lparr>workDir = dir, timeout = 10 * Minute\<rparr>"

definition SetTimeout :: "Executor \<Rightarrow> int \<Rightarrow> Executor" where
  "SetTimeout e t = e\<lparr>timeout := t\<rparr>"

definition Execute ::
  "env \<Rightarrow> Executor \<Rightarrow> string \<Rightarrow> action list \<Rightarrow> (string \<times> error option) \<times> action list" where
  "Execute w e command tr =
     (let parts = Fields w command
      in if length parts = 0 then (([], Some (Errorf ''empty command'')), tr)
         else (let tr1 = tr @ [Exec (workDir e) parts]
               in case race w tr (workDir e) parts (timeout e) of
                    TimerFirst started partial \<Rightarrow>
                      (([], Some (TimedOut (timeout e))),
                       (if started then tr1 @ [Kill (workDir e) parts] else tr1))
                  | DoneFirst res \<Rightarrow>
                      (case exit_error res of
                         Some err \<Rightarrow>
                           ((out_combined res,
                             Some (Errorf (''command failed: '' @ err @ newline
                                            @ ''Output: '' @ out_combined res))), tr1)
                       | None \<Rightarrow> ((out_combined res, None), tr1))))"

text \<open>The executor of \<open>internal/executor/command.go\<close>, which hands the string to a shell.\<close>

record ShellExecutor =
  shWorkDir :: string

definition NewShellExecutor :: "string \<Rightarrow> ShellExecutor" where
  "NewShellExecutor dir = \<lparr>shWorkDir = dir\<rparr>"

definition ExecuteShell ::
  "env \<Rightarrow> ShellExecutor \<Rightarrow> string \<Rightarrow> action list \<Rightarrow> error option \<times> action list" where
  "ExecuteShell w e command tr =
     (let res = run w tr (shWorkDir e) [''sh'', ''-c'', command];
          tr1 = tr @ [Exec (shWorkDir e) [''sh'', ''-c'', command]]
      in case exit_error res of
           Some err \<Rightarrow> (Some (CommandError command (out_stdout res) (out_stderr res) err), tr1)
         | None \<Rightarrow> (None, tr1))"

section \<open>The pipeline of package webhook\<close>

record WatchedFolder =
  Path :: string
  Command :: string
  Branch :: string
  RepoURL :: string

record Config =
  WebhookSecret :: string
  Folders :: "WatchedFolder list"

text \<open>The push event of package webhook, with the two fields of its repository.\<close>

record PushEvent =
  Ref :: string
  FullName :: string
  CloneURL :: string




section \<open>The pipeline of package server\<close>

record WatcherConfig =
  wPath :: string
  wBranch :: string
  wCommand :: string
  RepoOwner :: string
  RepoName :: string

record WatchersConfig =
  wWebhookSecret :: string
  Watchers :: "WatcherConfig list"

text \<open>
  What \<open>handlePushEvent\<close> reads of a \<open>github.PushEvent\<close>, through getters that give the
  empty string for a missing part.
\<close>

record GithubPushEvent =
  GetRef :: string
  GetOwnerLogin :: string
  GetName :: string

fun findWatcherByRepo :: "WatcherConfig list \<Rightarrow> string \<Rightarrow> string \<Rightarrow> error + WatcherConfig" where
  "findWatcherByRepo [] owner name =
     Inl (Errorf (''watcher for repository '' @ owner @ ''/'' @ name @ '' not found''))"
| "findWatcherByRepo (x # xs) owner name =
     (if RepoOwner x = owner \<and> RepoName x = name then Inr x
      else findWatcherByRepo xs owner name)"

definition GetWatcherByRepo :: "WatchersConfig \<Rightarrow> string \<Rightarrow> string \<Rightarrow> error + WatcherConfig" where
  "GetWatcherByRepo c owner name = findWatcherByRepo (Watchers c) owner name"

definition handlePushEvent ::
  "env \<Rightarrow> WatchersConfig \<Rightarrow> GithubPushEvent \<Rightarrow> action list \<Rightarrow> action list" where
  "handlePushEvent w cfg event tr =
     (let repoOwner = GetOwnerLogin event;
          repoName = GetName event;
          branch = extractBranchFromRef (GetRef event)
      in case GetWatcherByRepo cfg repoOwner repoName of
           Inl err \<Rightarrow> tr
         | Inr watcher \<Rightarrow>
             (if wBranch watcher \<noteq> branch then tr
              else (case NewManager w (wPath watcher) tr of
                      Inl err \<Rightarrow>
                        tr @ [SendFailureNotification (wPath watcher) branch (Error w err)]
                    | Inr gitMgr \<Rightarrow>
                        (case FetchAndPull w gitMgr branch tr of
                           (Some err, tr1) \<Rightarrow>
                             (if IsConflictError err
                              then tr1 @ [SendConflictNotification (wPath watcher) branch
                                            (Error w err)]
                              else tr1 @ [SendFailureNotification (wPath watcher) branch
                                            (Error w err)])
                         | (None, tr1) \<Rightarrow>
                             (if wCommand watcher \<noteq> []
                              then (case ExecuteShell w (NewShellExecutor (wPath watcher))
                                           (wCommand watcher) tr1 of
                                      (Some err, tr2) \<Rightarrow>
                                        tr2 @ [SendCommandFailureNotification (wPath watcher)
                                                 branch (wCommand watcher) (Error w err)]
                                    | (None, tr2) \<Rightarrow> tr2)
                              else tr1)))))"

section \<open>The HTTP handlers\<close>

text \<open>
  A request as the handlers read it: the method, the result of \<open>io.ReadAll(r.Body)\<close>
  (\<open>None\<close> when reading fails) and the headers. A response is the status code written
  and the push event handed to a new goroutine, if any.
\<close>

record Request =
  Method :: string
  Body :: "bytes option"
  Header :: "string \<rightharpoonup> string"

definition Get :: "(string \<rightharpoonup> string) \<Rightarrow> string \<Rightarrow> string" where
  "Get h key = (case h key of None \<Rightarrow> [] | Some v \<Rightarrow> v)"

record 'e Response =
  StatusCode :: nat
  spawned :: "'e option"

definition StatusOK :: nat where "StatusOK = 200"
definition StatusBadRequest :: nat where "StatusBadRequest = 400"
definition StatusUnauthorized :: nat where "StatusUnauthorized = 401"
definition StatusMethodNotAllowed :: nat where "StatusMethodNotAllowed = 405"

text \<open>
  \<open>Handler.ServeHTTP\<close> of package webhook. \<open>json.Unmarshal\<close> into a push event is the
  parameter \<open>unmarshal\<close> (\<open>None\<close> when it returns an error).
\<close>

definition ServeHTTP ::
  "(bytes \<Rightarrow> bytes \<Rightarrow> bytes) \<Rightarrow> (bytes \<Rightarrow> PushEvent option) \<Rightarrow> Config \<Rightarrow> Request
     \<Rightarrow> PushEvent Response" where
  "ServeHTTP hmac_sha256 unmarshal cfg r =
     (if Method r \<noteq> ''POST'' then \<lparr>StatusCode = StatusMethodNotAllowed, spawned = None\<rparr>
      else (case Body r of
              None \<Rightarrow> \<lparr>StatusCode = StatusBadRequest, spawned = None\<rparr>
            | Some body \<Rightarrow>
                (let signature = Get (Header r) ''X-Hub-Signature-256''
                 in if \<not> verifySignature hmac_sha256 (WebhookSecret cfg) body signature
                    then \<lparr>StatusCode = StatusUnauthorized, spawned = None\<rparr>
                    else (let eventType = Get (Header r) ''X-GitHub-Event''
                          in if eventType \<noteq> ''push''
                             then \<lparr>StatusCode = StatusOK, spawned = None\<rparr>
                             else (case unmarshal body of
                                     None \<Rightarrow> \<lparr>StatusCode = StatusBadRequest, spawned = None\<rparr>
                                   | Some pushEvent \<Rightarrow>
                                       \<lparr>StatusCode = StatusOK, spawned = Some pushEvent\<rparr>)))))"

text \<open>
  \<open>Server.handleWebhook\<close> of package server. \<open>ValidateWebhookSignature\<close> wraps
  \<open>github.ValidateSignature\<close> of the go-github library, the parameter \<open>validate\<close>
  (payload, signature, secret).
\<close>

definition handleWebhook ::
  "(bytes \<Rightarrow> string \<Rightarrow> string \<Rightarrow> bool) \<Rightarrow> (bytes \<Rightarrow> GithubPushEvent option)
     \<Rightarrow> WatchersConfig \<Rightarrow> Request \<Rightarrow> GithubPushEvent Response" where
  "handleWebhook validate unmarshal cfg r =
     (if Method r \<noteq> ''POST'' then \<lparr>StatusCode = StatusMethodNotAllowed, spawned = None\<rparr>
      else (case Body r of
              None \<Rightarrow> \<lparr>StatusCode = StatusBadRequest, spawned = None\<rparr>
            | Some payload \<Rightarrow>
                (let signature = Get (Header r) ''X-Hub-Signature-256''
                 in if \<not> validate payload signature (wWebhookSecret cfg)
                    then \<lparr>StatusCode = StatusUnauthorized, spawned = None\<rparr>
                    else (let event = Get (Header r) ''X-GitHub-Event''
                          in if event \<noteq> ''push''
                             then \<lparr>StatusCode = StatusOK, spawned = None\<rparr>
                             else (case unmarshal payload of
                                     None \<Rightarrow> \<lparr>StatusCode = StatusBadRequest, spawned = None\<rparr>
                                   | Some pushEvent \<Rightarrow>
                                       \<lparr>StatusCode = StatusOK, spawned = Some pushEvent\<rparr>)))))"

section \<open>Reading a trace\<close>



fun isExec :: "action \<Rightarrow> bool" where
  "isExec (Exec dir argv) = True"
| "isExec a = False"


section \<open>Sample inputs\<close>

definition ok_result :: proc_result where
  "ok_result = \<lparr>exit_error = None, out_stdout = [], out_stderr = [], out_combined = []\<rparr>"

text \<open>
  An environment whose processes depend on the argument vector only: \<open>r\<close> gives the
  result of a process, \<open>c\<close> the outcome of the race against the timer.
\<close>

definition sampleEnv :: "(string list \<Rightarrow> proc_result) \<Rightarrow> (string list \<Rightarrow> select_case) \<Rightarrow> env" where
  "sampleEnv r c =
     \<lparr>unicodeLower = (\<lambda>s. s), unicodeFields = (\<lambda>s. [s]), durationString = (\<lambda>d. ''10m0s''),
      run = (\<lambda>tr dir argv. r argv), race = (\<lambda>tr dir argv t. c argv),
      notExist = (\<lambda>tr p. False)\<rparr>"

definition all_ok :: "string list \<Rightarrow> proc_result" where
  "all_ok argv = ok_result"

definition done_ok :: "string list \<Rightarrow> select_case" where
  "done_ok argv = DoneFirst ok_result"

text \<open>A pull that exits with status 0 although its output reports a conflict.\<close>

definition pull_exit0_conflict :: "string list \<Rightarrow> proc_result" where
  "pull_exit0_conflict argv =
     (if argv = [''git'', ''pull'', ''origin'', ''main'']
      then \<lparr>exit_error = None, out_stdout = ''CONFLICT (content): Merge conflict in app.txt'',
            out_stderr = [], out_combined = ''CONFLICT (content): Merge conflict in app.txt''\<rparr>
      else ok_result)"

text \<open>A failing pull with the marker only across the two streams, in either order.\<close>

definition pull_split_marker :: "string list \<Rightarrow> proc_result" where
  "pull_split_marker argv =
     (if argv = [''git'', ''pull'', ''origin'', ''main'']
      then \<lparr>exit_error = Some ''exit status 1'', out_stdout = ''LICT CONF'',
            out_stderr = ''LICT CONF'', out_combined = ''LICT CONFLICT CONF''\<rparr>
      else ok_result)"

definition pull_conflict :: "string list \<Rightarrow> proc_result" where
  "pull_conflict argv =
     (if argv = [''git'', ''pull'', ''origin'', ''main'']
      then \<lparr>exit_error = Some ''exit status 1'',
            out_stdout = ''CONFLICT (content): Merge conflict in app.txt'',
            out_stderr = [], out_combined = ''CONFLICT (content): Merge conflict in app.txt''\<rparr>
      else ok_result)"

definition pull_fails :: "string list \<Rightarrow> proc_result" where
  "pull_fails argv =
     (if argv = [''git'', ''pull'', ''origin'', ''main'']
      then \<lparr>exit_error = Some ''exit status 128'', out_stdout = [],
            out_stderr = ''fatal: unable to access remote'',
            out_combined = ''fatal: unable to access remote''\<rparr>
      else ok_result)"

definition timer_fires :: "string list \<Rightarrow> select_case" where
  "timer_fires argv = TimerFirst True ''step 1 of 3 done''"

definition make_fails :: "string list \<Rightarrow> select_case" where
  "make_fails argv =
     DoneFirst \<lparr>exit_error = Some ''exit status 2'', out_stdout = ''cc -c main.c'',
                out_stderr = ''make: *** [all] Error 1'',
                out_combined = ''cc -c main.c make: *** [all] Error 1''\<rparr>"

definition two_folders :: Config where
  "two_folders =
     \<lparr>WebhookSecret = ''s3cret'',
      Folders = [\<lparr>Path = ''/srv/a'', Command = [], Branch = ''main'',
                  RepoURL = ''https://github.com/owner/repo''\<rparr>,
                 \<lparr>Path = ''/srv/b'', Command = [], Branch = ''main'',
                  RepoURL = ''git@github.com:Owner/Repo.git''\<rparr>]\<rparr>"

definition push_main :: PushEvent where
  "push_main = \<lparr>Ref = ''refs/heads/main'', FullName = ''owner/repo'',
                CloneURL = ''https://github.com/owner/repo.git''\<rparr>"

definition one_watcher :: WatchersConfig where
  "one_watcher =
     \<lparr>wWebhookSecret = ''s3cret'',
      Watchers = [\<lparr>wPath = ''/srv/app'', wBranch = ''main'', wCommand = ''make deploy'',
                   RepoOwner = ''owner'', RepoName = ''repo''\<rparr>]\<rparr>"

definition gh_push_main :: GithubPushEvent where
  "gh_push_main = \<lparr>GetRef = ''refs/heads/main'', GetOwnerLogin = ''owner'', GetName = ''repo''\<rparr>"

text \<open>A stand-in keyed hash for the samples: the two-byte digest \<open>ab 01\<close> for every input.\<close>

definition sample_mac :: "bytes \<Rightarrow> bytes \<Rightarrow> bytes" where
  "sample_mac key msg = [CHR 0xAB, CHR 0x01]"

definition sample_headers :: "string \<Rightarrow> string \<Rightarrow> (string \<rightharpoonup> string)" where
  "sample_headers sig ev = [''X-Hub-Signature-256'' \<mapsto> sig, ''X-GitHub-Event'' \<mapsto> ev]"

definition sample_unmarshal :: "bytes \<Rightarrow> PushEvent option" where
  "sample_unmarshal b = (if b = ''{}'' then Some push_main else None)"

definition sample_gh_unmarshal :: "bytes \<Rightarrow> GithubPushEvent option" where
  "sample_gh_unmarshal b = (if b = ''{}'' then Some gh_push_main else None)"

definition sample_validate :: "bytes \<Rightarrow> string \<Rightarrow> string \<Rightarrow> bool" where
  "sample_validate payload sig secret = (sig = ''sha256=ab01'')"

text \<open>A POST without a signature header whose body cannot be read.\<close>

definition no_headers :: "string \<rightharpoonup> string" where
  "no_headers = Map.empty"

definition unreadable_post :: Request where
  "unreadable_post = \<lparr>Method = ''POST'', Body = None, Header = no_headers\<rparr>"

section \<open>Facts about the string functions\<close>

lemma HasPrefix_iff: "HasPrefix s p \<longleftrightarrow> (\<exists>r. s = p @ r)"
  unfolding HasPrefix_def
  by (metis append_eq_conv_conj append_take_drop_id length_append le_add1)

lemma TrimPrefix_append: "TrimPrefix (p @ s) p = s"
  by (simp add: TrimPrefix_def HasPrefix_def)

lemma TrimPrefix_cases: "TrimPrefix h p = x \<Longrightarrow> h = x \<or> h = p @ x"
  by (auto simp: TrimPrefix_def HasPrefix_iff split: if_splits)

lemma Replace1_colon:
  "Replace1 s '':'' ''/'' =
     takeWhile (\<lambda>c. c \<noteq> CHR '':'') s @
       (case dropWhile (\<lambda>c. c \<noteq> CHR '':'') s of [] \<Rightarrow> [] | _ # path \<Rightarrow> CHR ''/'' # path)"
  by (induction s) (auto simp: HasPrefix_def)

lemma Replace1_ssh:
  assumes "HasPrefix u ''git@''"
  shows "Replace1 (Replace1 u '':'' ''/'') ''git@'' ''https://'' = ssh_to_https u"
proof -
  from assms obtain r where u: "u = ''git@'' @ r"
    using HasPrefix_iff by blast
  have first: "Replace1 u '':'' ''/'' = ''git@'' @ Replace1 r '':'' ''/''"
    by (simp add: u HasPrefix_def)
  have second: "Replace1 (''git@'' @ x) ''git@'' ''https://'' = ''https://'' @ x" for x
    by (simp add: HasPrefix_def)
  show ?thesis
    unfolding first second by (simp add: ssh_to_https_def u Replace1_colon HasPrefix_def)
qed

lemma strip_git_suffix_eq: "strip_git_suffix u = TrimSuffix u ''.git''"
  by (simp add: strip_git_suffix_def TrimSuffix_def eval_nat_numeral)

lemma rewrite_step:
  "(if HasPrefix v ''git@'' then Replace1 (Replace1 v '':'' ''/'') ''git@'' ''https://'' else v)
     = ssh_to_https v"
proof (cases "HasPrefix v ''git@''")
  case True
  then show ?thesis by (simp add: Replace1_ssh)
next
  case False
  then show ?thesis by (simp add: ssh_to_https_def)
qed

lemma scheme_step:
  "(if \<not> HasPrefix v ''http://'' \<and> \<not> HasPrefix v ''https://'' then ''https://'' @ v else v)
     = ensure_scheme v"
  unfolding ensure_scheme_def by (cases "HasPrefix v ''http://''"; cases "HasPrefix v ''https://''"; simp)

lemma normalizeGitURL_eq_spec: "normalizeGitURL mapLower u = normalize_spec mapLower u"
  unfolding normalizeGitURL_def normalize_spec_def Let_def rewrite_step scheme_step
    strip_git_suffix_eq ..

lemma ssh_to_https_shorthand:
  assumes "CHR '':'' \<notin> set host"
  shows "ssh_to_https (''git@'' @ host @ '':'' @ path) = ''https://'' @ host @ ''/'' @ path"
proof -
  have t: "takeWhile (\<lambda>c. c \<noteq> CHR '':'') (host @ CHR '':'' # path) = host"
    using assms by (induction host) auto
  have d: "dropWhile (\<lambda>c. c \<noteq> CHR '':'') (host @ CHR '':'' # path) = CHR '':'' # path"
    using assms by (induction host) auto
  have p: "HasPrefix (''git@'' @ host @ '':'' @ path) ''git@''"
    by (simp add: HasPrefix_def)
  have r: "drop 4 (''git@'' @ host @ '':'' @ path) = host @ CHR '':'' # path"
    by simp
  show ?thesis
    unfolding ssh_to_https_def Let_def r using p t d by simp
qed

section \<open>URL normalisation\<close>

text \<open>
  Claim C4. \<open>normalizeGitURL\<close> is a function of its argument alone and computes the four
  steps of the specification in order: strip a trailing \<open>.git\<close>, rewrite the SSH
  shorthand \<open>git@host:owner/repo\<close> to \<open>https://host/owner/repo\<close>, prepend \<open>https://\<close>
  when there is no \<open>http://\<close> or \<open>https://\<close> scheme, lower-case the result.
  \<open>CompareURLs\<close> is equality of the two normal forms; it holds of the SSH and HTTPS forms
  of one repository and fails for two different repositories.
\<close>

theorem normalizeGitURL_computes_spec:
  "normalizeGitURL mapLower url
     = ToLower mapLower (ensure_scheme (ssh_to_https (strip_git_suffix url)))
   \<and> (CHR '':'' \<notin> set host \<longrightarrow>
        ssh_to_https (''git@'' @ host @ '':'' @ path) = ''https://'' @ host @ ''/'' @ path)
   \<and> CompareURLs mapLower a b = (normalize_spec mapLower a = normalize_spec mapLower b)
   \<and> CompareURLs mapLower ''git@github.com:Owner/Repo.git'' ''https://github.com/owner/repo''
   \<and> \<not> CompareURLs mapLower ''https://github.com/a/b'' ''https://github.com/a/c''"
proof (intro conjI impI)
  show "normalizeGitURL mapLower url
          = ToLower mapLower (ensure_scheme (ssh_to_https (strip_git_suffix url)))"
    using normalizeGitURL_eq_spec [of mapLower url] by (simp add: normalize_spec_def)
  show "CompareURLs mapLower a b = (normalize_spec mapLower a = normalize_spec mapLower b)"
    by (simp add: CompareURLs_def normalizeGitURL_eq_spec)
  show "CompareURLs mapLower ''git@github.com:Owner/Repo.git'' ''https://github.com/owner/repo''"
    by code_simp
  show "\<not> CompareURLs mapLower ''https://github.com/a/b'' ''https://github.com/a/c''"
    by code_simp
next
  assume "CHR '':'' \<notin> set host"
  then show "ssh_to_https (''git@'' @ host @ '':'' @ path) = ''https://'' @ host @ ''/'' @ path"
    by (rule ssh_to_https_shorthand)
qed

theorem normalizeGitURL_computes_spec_witness:
  "CHR '':'' \<notin> set ''github.com''
   \<and> ssh_to_https ''git@github.com:Owner/Repo'' = ''https://github.com/Owner/Repo''
   \<and> normalizeGitURL (\<lambda>s. s) ''git@github.com:Owner/Repo.git'' = ''https://github.com/owner/repo''"
proof -
  have h: "CHR '':'' \<notin> set ''github.com''"
    by simp
  have n: "ToLower (\<lambda>s. s) (ensure_scheme ''https://github.com/Owner/Repo'')
             = ''https://github.com/owner/repo''"
    by code_simp
  have s: "strip_git_suffix ''git@github.com:Owner/Repo.git'' = ''git@github.com:Owner/Repo''"
    by code_simp
  show ?thesis
    using h n s
      normalizeGitURL_computes_spec [of "\<lambda>s. s" "''git@github.com:Owner/Repo.git''"
        "''github.com''" "''Owner/Repo''" "[]" "[]"]
    by simp
qed

section \<open>Signature verification\<close>

lemma length_EncodeToString: "length (EncodeToString bs) = 2 * length bs"
  by (induction bs) simp_all

lemma verifySignature_iff:
  "verifySignature H s p h
     \<longleftrightarrow> h \<noteq> [] \<and> TrimPrefix h ''sha256='' = EncodeToString (H s p)"
  by (auto simp: verifySignature_def Equal_def Let_def)

lemma verifySignature_cases:
  "verifySignature H s p h
     \<Longrightarrow> h = EncodeToString (H s p) \<or> h = ''sha256='' @ EncodeToString (H s p)"
  by (auto simp: verifySignature_iff dest: TrimPrefix_cases)

lemma valid_headers_same_length:
  assumes "verifySignature H s p h" and "verifySignature H s p h'" and "length h' = length h"
  shows "h' = h"
  using verifySignature_cases [OF assms(1)] verifySignature_cases [OF assms(2)] assms(3)
  by auto

text \<open>
  Claim C1. For every secret \<open>s\<close> and payload \<open>p\<close>, the header \<open>sha256=\<close> followed by
  the lower-case hexadecimal HMAC of \<open>p\<close> under \<open>s\<close> verifies; the empty header does
  not; and a header that verifies no longer does once any one of its bytes is changed.
\<close>

theorem verifySignature_correct:
  "verifySignature H s p (''sha256='' @ EncodeToString (H s p))
   \<and> \<not> verifySignature H s p ''''
   \<and> (verifySignature H s p h \<and> i < length h \<and> c \<noteq> h ! i
        \<longrightarrow> \<not> verifySignature H s p (h[i := c]))"
proof (intro conjI impI)
  show "verifySignature H s p (''sha256='' @ EncodeToString (H s p))"
    unfolding verifySignature_iff TrimPrefix_append by simp
  show "\<not> verifySignature H s p ''''"
    by (simp add: verifySignature_def)
next
  assume a: "verifySignature H s p h \<and> i < length h \<and> c \<noteq> h ! i"
  show "\<not> verifySignature H s p (h[i := c])"
  proof
    assume "verifySignature H s p (h[i := c])"
    with a have "h[i := c] = h"
      using valid_headers_same_length [of H s p h "h[i := c]"] by simp
    then have "h[i := c] ! i = h ! i"
      by simp
    with a show False
      by simp
  qed
qed

theorem verifySignature_correct_witness:
  "verifySignature sample_mac ''s3cret'' ''{}'' ''sha256=ab01''
   \<and> (10::nat) < length ''sha256=ab01''
   \<and> CHR ''0'' \<noteq> ''sha256=ab01'' ! 10
   \<and> \<not> verifySignature sample_mac ''s3cret'' ''{}'' ''sha256=ab00''"
  using verifySignature_correct [of sample_mac "''s3cret''" "''{}''" "''sha256=ab01''" 10 "CHR ''0''"]
  by (simp add: sample_mac_def hextable_def)

text \<open>
  Claim C10. The comparison is exact on bytes: a header carrying the right digest in
  upper-case or mixed-case hexadecimal, that is a string whose lower-casing is the
  expected digest but which is not that digest itself, is rejected, with the
  \<open>sha256=\<close> prefix or without it.
\<close>

theorem verifySignature_case_sensitive:
  "map lowerByte sig = EncodeToString (H s p) \<and> sig \<noteq> EncodeToString (H s p)
   \<longrightarrow> \<not> verifySignature H s p (''sha256='' @ sig) \<and> \<not> verifySignature H s p sig"
proof (intro impI conjI)
  assume a: "map lowerByte sig = EncodeToString (H s p) \<and> sig \<noteq> EncodeToString (H s p)"
  then have len: "length sig = length (EncodeToString (H s p))"
    by (metis length_map)
  show "\<not> verifySignature H s p (''sha256='' @ sig)"
  proof
    assume "verifySignature H s p (''sha256='' @ sig)"
    from verifySignature_cases [OF this] show False
    proof
      assume "''sha256='' @ sig = EncodeToString (H s p)"
      then have "length (''sha256='' @ sig) = length sig"
        using len by simp
      then show False
        by simp
    next
      assume "''sha256='' @ sig = ''sha256='' @ EncodeToString (H s p)"
      with a show False
        by simp
    qed
  qed
  show "\<not> verifySignature H s p sig"
  proof
    assume "verifySignature H s p sig"
    from verifySignature_cases [OF this] show False
    proof
      assume "sig = EncodeToString (H s p)"
      with a show False
        by simp
    next
      assume "sig = ''sha256='' @ EncodeToString (H s p)"
      then have "length sig = 7 + length (EncodeToString (H s p))"
        by simp
      with len show False
        by simp
    qed
  qed
qed

theorem verifySignature_case_sensitive_witness:
  "map lowerByte ''AB01'' = EncodeToString (sample_mac ''s3cret'' ''{}'')
   \<and> ''AB01'' \<noteq> EncodeToString (sample_mac ''s3cret'' ''{}'')
   \<and> verifySignature sample_mac ''s3cret'' ''{}'' ''sha256=ab01''
   \<and> \<not> verifySignature sample_mac ''s3cret'' ''{}'' ''sha256=AB01''
   \<and> \<not> verifySignature sample_mac ''s3cret'' ''{}'' ''AB01''"
proof -
  have 1: "map lowerByte ''AB01'' = EncodeToString (sample_mac ''s3cret'' ''{}'')"
    by code_simp
  have 2: "''AB01'' \<noteq> EncodeToString (sample_mac ''s3cret'' ''{}'')"
    by code_simp
  have 3: "verifySignature sample_mac ''s3cret'' ''{}'' ''sha256=ab01''"
    by code_simp
  show ?thesis
    using 1 2 3 verifySignature_case_sensitive [of "''AB01''" sample_mac "''s3cret''" "''{}''"]
    by simp
qed

section \<open>Branch of a ref\<close>

lemma extractBranchFromRef_eq_TrimPrefix:
  "ref \<noteq> ''refs/heads/'' \<Longrightarrow> extractBranchFromRef ref = TrimPrefix ref ''refs/heads/''"
  unfolding extractBranchFromRef_def TrimPrefix_def HasPrefix_def Let_def
  by (auto simp: order_le_less)

text \<open>
  Claim C9. The branch is the ref without its \<open>refs/heads/\<close> prefix when the prefix is
  there, and the ref itself otherwise. On the ref \<open>refs/heads/\<close> the prefix is there:
  \<open>processPushEvent\<close> of package webhook strips it and gets the empty branch, while
  \<open>extractBranchFromRef\<close> of package server, whose length test is strict, gives the ref
  back whole.
\<close>

theorem extractBranchFromRef_bare_prefix:
  "HasPrefix ''refs/heads/'' ''refs/heads/''
   \<and> extractBranchFromRef ''refs/heads/'' = ''refs/heads/''
   \<and> TrimPrefix ''refs/heads/'' ''refs/heads/'' = ''''"
  by (simp add: extractBranchFromRef_def TrimPrefix_def HasPrefix_def)

section \<open>Synchronisation\<close>

text \<open>
  Claim C2. When the fetch has succeeded, the pull is classified from the error of its
  \<open>Run\<close> and from its two streams: a conflict when the pull failed and the marker
  \<open>CONFLICT\<close> occurs in its standard error or in its standard output (each searched
  on its own), another failure when the pull failed without the marker, and success when
  the pull exited with status 0, whatever it printed.
\<close>

theorem FetchAndPull_classification:
  assumes "exit_error (run w tr (repoPath m) [''git'', ''fetch'', ''origin'', branch]) = None"
    and "pull = run w (tr @ [Git (repoPath m) [''git'', ''fetch'', ''origin'', branch]])
                  (repoPath m) [''git'', ''pull'', ''origin'', branch]"
  shows "(exit_error pull \<noteq> None \<and>
            (Contains (out_stderr pull) ''CONFLICT'' \<or> Contains (out_stdout pull) ''CONFLICT'')
          \<longrightarrow> fst (FetchAndPull w m branch tr)
                = Some (ConflictError (out_stderr pull @ out_stdout pull)))
       \<and> (exit_error pull \<noteq> None \<and>
            \<not> Contains (out_stderr pull) ''CONFLICT''
            \<and> \<not> Contains (out_stdout pull) ''CONFLICT''
          \<longrightarrow> fst (FetchAndPull w m branch tr)
                = Some (Errorf (''git pull failed: '' @ out_stderr pull)))
       \<and> (exit_error pull = None \<longrightarrow> fst (FetchAndPull w m branch tr) = None)"
  using assms by (auto simp: FetchAndPull_def Let_def split: option.splits)

theorem FetchAndPull_classification_witness:
  "exit_error (run (sampleEnv pull_conflict done_ok) [] ''/srv/app''
                 [''git'', ''fetch'', ''origin'', ''main'']) = None
   \<and> fst (FetchAndPull (sampleEnv pull_conflict done_ok) \<lparr>repoPath = ''/srv/app''\<rparr> ''main'' [])
       = Some (ConflictError ''CONFLICT (content): Merge conflict in app.txt'')
   \<and> fst (FetchAndPull (sampleEnv pull_fails done_ok) \<lparr>repoPath = ''/srv/app''\<rparr> ''main'' [])
       = Some (Errorf ''git pull failed: fatal: unable to access remote'')
   \<and> fst (FetchAndPull (sampleEnv all_ok done_ok) \<lparr>repoPath = ''/srv/app''\<rparr> ''main'' [])
       = None"
  using
    FetchAndPull_classification [of "sampleEnv pull_conflict done_ok" "[]"
      "\<lparr>repoPath = ''/srv/app''\<rparr>" "''main''"
      "pull_conflict [''git'', ''pull'', ''origin'', ''main'']"]
    FetchAndPull_classification [of "sampleEnv pull_fails done_ok" "[]"
      "\<lparr>repoPath = ''/srv/app''\<rparr>" "''main''"
      "pull_fails [''git'', ''pull'', ''origin'', ''main'']"]
    FetchAndPull_classification [of "sampleEnv all_ok done_ok" "[]"
      "\<lparr>repoPath = ''/srv/app''\<rparr>" "''main''"
      "all_ok [''git'', ''pull'', ''origin'', ''main'']"]
  by (simp add: sampleEnv_def pull_conflict_def pull_fails_def all_ok_def ok_result_def
        HasPrefix_def)

text \<open>
  The claim as stated fails in two ways. A pull that exits with status 0 and prints the
  marker is a success; and a failing pull whose streams hold the marker only across
  their junction (in either order of concatenation) is an ordinary failure.
\<close>

theorem FetchAndPull_exit_zero_counterexample:
  "exit_error (pull_exit0_conflict [''git'', ''pull'', ''origin'', ''main'']) = None
   \<and> Contains (out_combined (pull_exit0_conflict [''git'', ''pull'', ''origin'', ''main'']))
        ''CONFLICT''
   \<and> Contains (out_stdout (pull_exit0_conflict [''git'', ''pull'', ''origin'', ''main''])
                @ out_stderr (pull_exit0_conflict [''git'', ''pull'', ''origin'', ''main'']))
        ''CONFLICT''
   \<and> fst (FetchAndPull (sampleEnv pull_exit0_conflict done_ok) \<lparr>repoPath = ''/srv/app''\<rparr>
            ''main'' []) = None
   \<and> Contains (out_stdout (pull_split_marker [''git'', ''pull'', ''origin'', ''main''])
                @ out_stderr (pull_split_marker [''git'', ''pull'', ''origin'', ''main'']))
        ''CONFLICT''
   \<and> Contains (out_stderr (pull_split_marker [''git'', ''pull'', ''origin'', ''main''])
                @ out_stdout (pull_split_marker [''git'', ''pull'', ''origin'', ''main'']))
        ''CONFLICT''
   \<and> fst (FetchAndPull (sampleEnv pull_split_marker done_ok) \<lparr>repoPath = ''/srv/app''\<rparr>
            ''main'' []) = Some (Errorf ''git pull failed: LICT CONF'')"
  by (simp add: FetchAndPull_def sampleEnv_def pull_exit0_conflict_def pull_split_marker_def
        ok_result_def HasPrefix_def)

section \<open>Matching\<close>










section \<open>The pipeline after a failed synchronisation\<close>

lemma isExec_FetchAndPull:
  "filter isExec (snd (FetchAndPull w m branch tr)) = filter isExec tr"
  by (simp add: FetchAndPull_def Let_def split: option.splits)

text \<open>
  Claim C5. In a run of \<open>handlePushEvent\<close> on a matched watcher, when \<open>FetchAndPull\<close>
  returns a conflict error the run ends with the conflict notification, and when it
  returns any other error the run ends with the failure notification; in both cases the
  trace of the run has no command execution beyond those it started with.
\<close>

theorem handlePushEvent_sync_failure:
  assumes "GetWatcherByRepo cfg (GetOwnerLogin event) (GetName event) = Inr watcher"
    and "wBranch watcher = extractBranchFromRef (GetRef event)"
    and "NewManager w (wPath watcher) tr = Inr gitMgr"
    and "FetchAndPull w gitMgr (wBranch watcher) tr = (Some err, tr1)"
  shows "(IsConflictError err \<longrightarrow>
            handlePushEvent w cfg event tr
              = tr1 @ [SendConflictNotification (wPath watcher) (wBranch watcher) (Error w err)])
       \<and> (\<not> IsConflictError err \<longrightarrow>
            handlePushEvent w cfg event tr
              = tr1 @ [SendFailureNotification (wPath watcher) (wBranch watcher) (Error w err)])
       \<and> filter isExec (handlePushEvent w cfg event tr) = filter isExec tr"
proof -
  have e: "filter isExec tr1 = filter isExec tr"
    using isExec_FetchAndPull [of w gitMgr "wBranch watcher" tr] assms(4) by simp
  show ?thesis
    using assms e by (simp add: handlePushEvent_def Let_def)
qed

theorem handlePushEvent_sync_failure_witness:
  "handlePushEvent (sampleEnv pull_conflict done_ok) one_watcher gh_push_main []
     = [Git ''/srv/app'' [''git'', ''fetch'', ''origin'', ''main''],
        Git ''/srv/app'' [''git'', ''pull'', ''origin'', ''main''],
        SendConflictNotification ''/srv/app'' ''main''
          ''merge conflict: CONFLICT (content): Merge conflict in app.txt'']
   \<and> handlePushEvent (sampleEnv pull_fails done_ok) one_watcher gh_push_main []
     = [Git ''/srv/app'' [''git'', ''fetch'', ''origin'', ''main''],
        Git ''/srv/app'' [''git'', ''pull'', ''origin'', ''main''],
        SendFailureNotification ''/srv/app'' ''main''
          ''git pull failed: fatal: unable to access remote'']"
proof -
  let ?watcher = "\<lparr>wPath = ''/srv/app'', wBranch = ''main'', wCommand = ''make deploy'',
                    RepoOwner = ''owner'', RepoName = ''repo''\<rparr>"
  let ?tr = "[Git ''/srv/app'' [''git'', ''fetch'', ''origin'', ''main''],
              Git ''/srv/app'' [''git'', ''pull'', ''origin'', ''main'']]"
  have 1: "GetWatcherByRepo one_watcher (GetOwnerLogin gh_push_main) (GetName gh_push_main)
             = Inr ?watcher"
    by (simp add: GetWatcherByRepo_def one_watcher_def gh_push_main_def)
  have 2: "wBranch ?watcher = extractBranchFromRef (GetRef gh_push_main)"
    by (simp add: extractBranchFromRef_def gh_push_main_def)
  have 3: "NewManager (sampleEnv r done_ok) (wPath ?watcher) [] = Inr \<lparr>repoPath = ''/srv/app''\<rparr>"
    for r
    by (simp add: NewManager_def sampleEnv_def)
  have 4: "FetchAndPull (sampleEnv pull_conflict done_ok) \<lparr>repoPath = ''/srv/app''\<rparr>
             (wBranch ?watcher) []
           = (Some (ConflictError ''CONFLICT (content): Merge conflict in app.txt''), ?tr)"
    by (simp add: FetchAndPull_def sampleEnv_def pull_conflict_def ok_result_def HasPrefix_def)
  have 5: "FetchAndPull (sampleEnv pull_fails done_ok) \<lparr>repoPath = ''/srv/app''\<rparr>
             (wBranch ?watcher) []
           = (Some (Errorf ''git pull failed: fatal: unable to access remote''), ?tr)"
    by (simp add: FetchAndPull_def sampleEnv_def pull_fails_def ok_result_def HasPrefix_def)
  show ?thesis
    using handlePushEvent_sync_failure [OF 1 2 3 4] handlePushEvent_sync_failure [OF 1 2 3 5]
    by simp
qed

section \<open>Running the command\<close>

text \<open>
  Claim C6. An executor made by \<open>NewExecutor\<close> has a timeout of ten minutes. For a
  command with at least one field: when the timer fires first, the process is killed if
  it has been started, and the result is the timeout error with the empty string as
  output, whatever the process has written by then; when the process completes first,
  the result is its captured output, without an error on exit status 0 and with an error
  that carries the output otherwise.
\<close>

theorem Execute_outcomes:
  assumes "Fields w command \<noteq> []"
  shows "timeout (NewExecutor dir) = 10 * 60 * 1000000000
    \<and> (race w tr (workDir e) (Fields w command) (timeout e) = TimerFirst started partial \<longrightarrow>
         Execute w e command tr
           = (([], Some (TimedOut (timeout e))),
              tr @ Exec (workDir e) (Fields w command)
                   # (if started then [Kill (workDir e) (Fields w command)] else [])))
    \<and> (race w tr (workDir e) (Fields w command) (timeout e) = DoneFirst res \<longrightarrow>
         Execute w e command tr
           = ((out_combined res,
               (case exit_error res of
                  None \<Rightarrow> None
                | Some err \<Rightarrow> Some (Errorf (''command failed: '' @ err @ newline @ ''Output: ''
                                              @ out_combined res)))),
              tr @ [Exec (workDir e) (Fields w command)]))"
  using assms
  by (auto simp: Execute_def Let_def NewExecutor_def Minute_def split: option.splits)

theorem Execute_outcomes_witness:
  "Fields (sampleEnv all_ok timer_fires) ''make all'' = [''make'', ''all'']
   \<and> Execute (sampleEnv all_ok timer_fires) (NewExecutor ''/srv/app'') ''make all'' []
       = (([], Some (TimedOut 600000000000)),
          [Exec ''/srv/app'' [''make'', ''all''], Kill ''/srv/app'' [''make'', ''all'']])
   \<and> Execute (sampleEnv all_ok done_ok) (NewExecutor ''/srv/app'') ''make all'' []
       = (([], None), [Exec ''/srv/app'' [''make'', ''all'']])
   \<and> fst (fst (Execute (sampleEnv all_ok make_fails) (NewExecutor ''/srv/app'') ''make all'' []))
       = ''cc -c main.c make: *** [all] Error 1''"
proof -
  have f: "Fields (sampleEnv r c) ''make all'' = [''make'', ''all'']" for r c
    by code_simp
  have n: "Fields (sampleEnv r c) ''make all'' \<noteq> []" for r c
    unfolding f by simp
  show ?thesis
    using
      Execute_outcomes [where w = "sampleEnv all_ok timer_fires"
        and command = "''make all''" and dir = "''/srv/app''" and tr = "[]"
        and e = "NewExecutor ''/srv/app''" and started = True
        and partial = "''step 1 of 3 done''" and res = ok_result, OF n]
      Execute_outcomes [where w = "sampleEnv all_ok done_ok"
        and command = "''make all''" and dir = "''/srv/app''" and tr = "[]"
        and e = "NewExecutor ''/srv/app''" and started = True
        and partial = "[]" and res = ok_result, OF n]
      Execute_outcomes [where w = "sampleEnv all_ok make_fails"
        and command = "''make all''" and dir = "''/srv/app''" and tr = "[]"
        and e = "NewExecutor ''/srv/app''" and started = True and partial = "[]"
        and res = "\<lparr>exit_error = Some ''exit status 2'', out_stdout = ''cc -c main.c'',
                     out_stderr = ''make: *** [all] Error 1'',
                     out_combined = ''cc -c main.c make: *** [all] Error 1''\<rparr>", OF n]
    unfolding f
    by (simp add: sampleEnv_def timer_fires_def done_ok_def make_fails_def ok_result_def
          NewExecutor_def Minute_def)
qed

text \<open>
  A process that has written \<open>step 1 of 3 done\<close> when the timer fires: the result
  carries the empty output and an error made from the duration alone.
\<close>

theorem Execute_timeout_counterexample:
  "race (sampleEnv all_ok timer_fires) [] ''/srv/app'' [''sleep'', ''900'']
       (timeout (NewExecutor ''/srv/app''))
     = TimerFirst True ''step 1 of 3 done''
   \<and> Execute (sampleEnv all_ok timer_fires) (NewExecutor ''/srv/app'') ''sleep 900'' []
     = (([], Some (TimedOut 600000000000)),
        [Exec ''/srv/app'' [''sleep'', ''900''], Kill ''/srv/app'' [''sleep'', ''900'']])
   \<and> Error (sampleEnv all_ok timer_fires) (TimedOut 600000000000)
     = ''command timed out after 10m0s''"
  by code_simp

lemma ExecuteShell_trace:
  "snd (ExecuteShell w (NewShellExecutor dir) command tr)
     = tr @ [Exec dir [''sh'', ''-c'', command]]"
  by (simp add: ExecuteShell_def NewShellExecutor_def Let_def split: option.splits)

text \<open>
  Claim C7. A non-empty command string is run as one string interpreted by a shell, in
  the folder's path. The executor of \<open>internal/executor/command.go\<close> does so
  (\<open>sh -c\<close> with the whole string); the executor with the timeout, which the pipeline
  of package webhook uses, splits the string at white space and starts the first field
  as the program, so that \<open>&&\<close> reaches the program as an argument.
\<close>

theorem Execute_splits_fields:
  "hd (snd (Execute w (NewExecutor ''/srv/app'') ''npm install && npm run build'' []))
     = Exec ''/srv/app'' [''npm'', ''install'', ''&&'', ''npm'', ''run'', ''build'']
   \<and> snd (ExecuteShell w (NewShellExecutor ''/srv/app'') ''npm install && npm run build'' [])
     = [Exec ''/srv/app'' [''sh'', ''-c'', ''npm install && npm run build'']]"
proof -
  have f: "Fields w ''npm install && npm run build''
             = [''npm'', ''install'', ''&&'', ''npm'', ''run'', ''build'']"
    by code_simp
  show ?thesis
    by (simp add: Execute_def ExecuteShell_def f NewExecutor_def NewShellExecutor_def Let_def
          split: select_case.splits option.splits)
qed

section \<open>Status codes\<close>

text \<open>
  Claim C8. Both handlers answer a request that is not a POST with 405, and a POST whose
  body cannot be read with 400, whatever its signature header. For a POST whose body has
  been read: 401 when the signature is invalid or missing; 200 with nothing started when
  the signature is valid and the event is not \<open>push\<close>; 400 when the signature is
  valid, the event is \<open>push\<close> and the body does not parse; 200 with the push event
  handed on when it parses, before any matching takes place.
\<close>

theorem webhook_status_codes:
  "(Method r \<noteq> ''POST'' \<longrightarrow>
      ServeHTTP H um cfg r = \<lparr>StatusCode = 405, spawned = None\<rparr>
      \<and> handleWebhook V um' cfg' r = \<lparr>StatusCode = 405, spawned = None\<rparr>)
 \<and> (Method r = ''POST'' \<and> Body r = None \<longrightarrow>
      ServeHTTP H um cfg r = \<lparr>StatusCode = 400, spawned = None\<rparr>
      \<and> handleWebhook V um' cfg' r = \<lparr>StatusCode = 400, spawned = None\<rparr>)
 \<and> (Method r = ''POST'' \<and> Body r = Some body \<longrightarrow>
      (\<not> verifySignature H (WebhookSecret cfg) body (Get (Header r) ''X-Hub-Signature-256'') \<longrightarrow>
         ServeHTTP H um cfg r = \<lparr>StatusCode = 401, spawned = None\<rparr>)
    \<and> (verifySignature H (WebhookSecret cfg) body (Get (Header r) ''X-Hub-Signature-256'') \<longrightarrow>
         (Get (Header r) ''X-GitHub-Event'' \<noteq> ''push'' \<longrightarrow>
            ServeHTTP H um cfg r = \<lparr>StatusCode = 200, spawned = None\<rparr>)
       \<and> (Get (Header r) ''X-GitHub-Event'' = ''push'' \<longrightarrow>
            (um body = None \<longrightarrow> ServeHTTP H um cfg r = \<lparr>StatusCode = 400, spawned = None\<rparr>)
          \<and> (\<forall>ev. um body = Some ev \<longrightarrow>
                ServeHTTP H um cfg r = \<lparr>StatusCode = 200, spawned = Some ev\<rparr>)))
    \<and> (\<not> V body (Get (Header r) ''X-Hub-Signature-256'') (wWebhookSecret cfg') \<longrightarrow>
         handleWebhook V um' cfg' r = \<lparr>StatusCode = 401, spawned = None\<rparr>)
    \<and> (V body (Get (Header r) ''X-Hub-Signature-256'') (wWebhookSecret cfg') \<longrightarrow>
         (Get (Header r) ''X-GitHub-Event'' \<noteq> ''push'' \<longrightarrow>
            handleWebhook V um' cfg' r = \<lparr>StatusCode = 200, spawned = None\<rparr>)
       \<and> (Get (Header r) ''X-GitHub-Event'' = ''push'' \<longrightarrow>
            (um' body = None \<longrightarrow>
               handleWebhook V um' cfg' r = \<lparr>StatusCode = 400, spawned = None\<rparr>)
          \<and> (\<forall>ev. um' body = Some ev \<longrightarrow>
                handleWebhook V um' cfg' r = \<lparr>StatusCode = 200, spawned = Some ev\<rparr>))))"
  by (auto simp: ServeHTTP_def handleWebhook_def Let_def StatusOK_def StatusBadRequest_def
        StatusUnauthorized_def StatusMethodNotAllowed_def)

theorem webhook_status_codes_witness:
  "ServeHTTP sample_mac sample_unmarshal two_folders
     \<lparr>Method = ''GET'', Body = Some ''{}'', Header = sample_headers ''sha256=ab01'' ''push''\<rparr>
     = \<lparr>StatusCode = 405, spawned = None\<rparr>
   \<and> ServeHTTP sample_mac sample_unmarshal two_folders
     \<lparr>Method = ''POST'', Body = Some ''{}'', Header = Map.empty\<rparr>
     = \<lparr>StatusCode = 401, spawned = None\<rparr>
   \<and> ServeHTTP sample_mac sample_unmarshal two_folders
     \<lparr>Method = ''POST'', Body = Some ''{}'', Header = sample_headers ''sha256=ab01'' ''ping''\<rparr>
     = \<lparr>StatusCode = 200, spawned = None\<rparr>
   \<and> ServeHTTP sample_mac sample_unmarshal two_folders
     \<lparr>Method = ''POST'', Body = Some ''{'', Header = sample_headers ''sha256=ab01'' ''push''\<rparr>
     = \<lparr>StatusCode = 400, spawned = None\<rparr>
   \<and> ServeHTTP sample_mac sample_unmarshal two_folders
     \<lparr>Method = ''POST'', Body = Some ''{}'', Header = sample_headers ''sha256=ab01'' ''push''\<rparr>
     = \<lparr>StatusCode = 200, spawned = Some push_main\<rparr>
   \<and> handleWebhook sample_validate sample_gh_unmarshal one_watcher
     \<lparr>Method = ''POST'', Body = Some ''{}'', Header = Map.empty\<rparr>
     = \<lparr>StatusCode = 401, spawned = None\<rparr>
   \<and> handleWebhook sample_validate sample_gh_unmarshal one_watcher
     \<lparr>Method = ''POST'', Body = Some ''{}'', Header = sample_headers ''sha256=ab01'' ''push''\<rparr>
     = \<lparr>StatusCode = 200, spawned = Some gh_push_main\<rparr>
   \<and> ServeHTTP sample_mac sample_unmarshal two_folders
     \<lparr>Method = ''POST'', Body = None, Header = sample_headers ''sha256=ab01'' ''push''\<rparr>
     = \<lparr>StatusCode = 400, spawned = None\<rparr>
   \<and> handleWebhook sample_validate sample_gh_unmarshal one_watcher
     \<lparr>Method = ''POST'', Body = None, Header = sample_headers ''sha256=ab01'' ''push''\<rparr>
     = \<lparr>StatusCode = 400, spawned = None\<rparr>"
proof -
  have ok: "verifySignature sample_mac (WebhookSecret two_folders) b ''sha256=ab01''" for b
    by (simp add: verifySignature_def TrimPrefix_def HasPrefix_def Equal_def sample_mac_def
          hextable_def)
  have missing: "\<not> verifySignature sample_mac (WebhookSecret two_folders) b ''''" for b
    by (simp add: verifySignature_def)
  have sig: "Get (sample_headers s e) ''X-Hub-Signature-256'' = s" for s e
    by (simp add: Get_def sample_headers_def)
  have ev: "Get (sample_headers s e) ''X-GitHub-Event'' = e" for s e
    by (simp add: Get_def sample_headers_def)
  have none: "Get Map.empty k = ''''" for k
    by (simp add: Get_def)
  show ?thesis
    using
      webhook_status_codes [where H = sample_mac and um = sample_unmarshal
        and cfg = two_folders and V = sample_validate and um' = sample_gh_unmarshal
        and cfg' = one_watcher and body = "''{}''"
        and r = "\<lparr>Method = ''GET'', Body = Some ''{}'',
                  Header = sample_headers ''sha256=ab01'' ''push''\<rparr>"]
      webhook_status_codes [where H = sample_mac and um = sample_unmarshal
        and cfg = two_folders and V = sample_validate and um' = sample_gh_unmarshal
        and cfg' = one_watcher and body = "''{}''"
        and r = "\<lparr>Method = ''POST'', Body = Some ''{}'', Header = Map.empty\<rparr>"]
      webhook_status_codes [where H = sample_mac and um = sample_unmarshal
        and cfg = two_folders and V = sample_validate and um' = sample_gh_unmarshal
        and cfg' = one_watcher and body = "''{}''"
        and r = "\<lparr>Method = ''POST'', Body = Some ''{}'',
                  Header = sample_headers ''sha256=ab01'' ''ping''\<rparr>"]
      webhook_status_codes [where H = sample_mac and um = sample_unmarshal
        and cfg = two_folders and V = sample_validate and um' = sample_gh_unmarshal
        and cfg' = one_watcher and body = "''{''"
        and r = "\<lparr>Method = ''POST'', Body = Some ''{'',
                  Header = sample_headers ''sha256=ab01'' ''push''\<rparr>"]
      webhook_status_codes [where H = sample_mac and um = sample_unmarshal
        and cfg = two_folders and V = sample_validate and um' = sample_gh_unmarshal
        and cfg' = one_watcher and body = "''{}''"
        and r = "\<lparr>Method = ''POST'', Body = Some ''{}'',
                  Header = sample_headers ''sha256=ab01'' ''push''\<rparr>"]
      webhook_status_codes [where H = sample_mac and um = sample_unmarshal
        and cfg = two_folders and V = sample_validate and um' = sample_gh_unmarshal
        and cfg' = one_watcher and body = "''{}''"
        and r = "\<lparr>Method = ''POST'', Body = None,
                  Header = sample_headers ''sha256=ab01'' ''push''\<rparr>"]
    by (simp add: ok missing sig ev none sample_unmarshal_def sample_gh_unmarshal_def
          sample_validate_def)
qed

text \<open>
  The claim as stated fails on a POST that carries no signature header and whose body
  cannot be read: reading the body comes before the signature check in both handlers,
  and the answer is 400, not 401.
\<close>

theorem webhook_unreadable_body_counterexample:
  "Method unreadable_post = ''POST''
   \<and> Get (Header unreadable_post) ''X-Hub-Signature-256'' = []
   \<and> ServeHTTP sample_mac sample_unmarshal two_folders unreadable_post
       = \<lparr>StatusCode = 400, spawned = None\<rparr>
   \<and> handleWebhook sample_validate sample_gh_unmarshal one_watcher unreadable_post
       = \<lparr>StatusCode = 400, spawned = None\<rparr>
   \<and> StatusCode (ServeHTTP sample_mac sample_unmarshal two_folders unreadable_post) \<noteq> 401
   \<and> StatusCode (handleWebhook sample_validate sample_gh_unmarshal one_watcher
                    unreadable_post) \<noteq> 401"
  by (simp add: unreadable_post_def no_headers_def Get_def ServeHTTP_def handleWebhook_def
        StatusBadRequest_def StatusMethodNotAllowed_def)

end
